theory Spec2Isabelle
  imports Main "HOL-Library.Sublist" "HOL-Library.Word"
begin

section \<open>Python values used by medical.py\<close>

text \<open>
  A Python \<open>str\<close> is modelled as a \<open>string\<close> holding its UTF-8 bytes; every literal of
  the script except three emoji is ASCII. Python's \<open>needle in haystack\<close> on strings is the
  contiguous-sublist test \<open>sublist needle haystack\<close> of the library. \<open>bytes\<close> is a
  list of 8-bit words.
\<close>

type_synonym bytes = "8 word list"

text \<open>\<open>str(n)\<close> for an integer, as an f-string field \<open>{age}\<close> renders it.\<close>

fun str_nat :: "nat \<Rightarrow> string" where
  "str_nat n = (if n < 10 then [char_of (48 + n)]
                else str_nat (n div 10) @ [char_of (48 + n mod 10)])"

declare str_nat.simps [simp del]

definition str_int :: "int \<Rightarrow> string" where
  "str_int i = (if i < 0 then ''-'' @ str_nat (nat (- i)) else str_nat (nat i))"

text \<open>\<open>str.lower()\<close> on the ASCII letters (the only letters of the script's literals).\<close>

definition lower_char :: "char \<Rightarrow> char" where
  "lower_char c = (let n = (of_char c :: nat) in
                   if 65 \<le> n \<and> n \<le> 90 then char_of (n + 32) else c)"

definition lower :: "string \<Rightarrow> string" where
  "lower s = map lower_char s"

text \<open>
  Exceptions derived from \<open>Exception\<close>, carrying \<open>str(e)\<close>. These are the ones the
  script's \<open>except Exception as e\<close> clauses catch.
\<close>

datatype exn = Exception string

fun str_exn :: "exn \<Rightarrow> string" where
  "str_exn (Exception m) = m"

section \<open>Sidebar inputs\<close>

text \<open>The select box offers exactly \<open>["Male", "Female", "Other"]\<close> and returns the chosen label.\<close>

datatype gender = Male | Female | Other

fun str_gender :: "gender \<Rightarrow> string" where
  "str_gender Male = ''Male''"
| "str_gender Female = ''Female''"
| "str_gender Other = ''Other''"

section \<open>Prompt construction\<close>

text \<open>
  The f-strings of the script, literal for literal. The triple-quoted ones start with a
  newline and keep the eight blanks of source indentation on every non-empty line.
\<close>

definition text_prompt :: "string \<Rightarrow> int \<Rightarrow> gender \<Rightarrow> string \<Rightarrow> string" where
  "text_prompt name age gender user_input =
     ''\<newline>        You are a helpful, trustworthy medical assistant AI. Use only verified sources like WHO, Mayo Clinic, and WebMD.\<newline>        Patient Name: ''
     @ name @ ''\<newline>        Age: '' @ str_int age @ ''\<newline>        Gender: '' @ str_gender gender
     @ ''\<newline>\<newline>        The user asked: '' @ user_input
     @ ''\<newline>\<newline>        Provide clear, trustworthy, and actionable information. Include:\<newline>        - Symptoms\<newline>        - Treatments\<newline>        - Medicines\<newline>        - Nutrition suggestions (if applicable)\<newline>        ''"

definition nutrition_prompt :: "string \<Rightarrow> int \<Rightarrow> gender \<Rightarrow> string" where
  "nutrition_prompt user_input age gender =
     ''Photorealistic nutrition plate for a person with symptoms or condition described as: ''
     @ [CHR 0x27] @ user_input @ [CHR 0x27] @ ''. Age: '' @ str_int age @ '', Gender: ''
     @ str_gender gender @ ''. Based on WHO or Mayo Clinic guidance.''"

definition medicine_prompt :: "string \<Rightarrow> string" where
  "medicine_prompt user_input =
     ''High-resolution image of common medicines or treatment kits based on symptoms: ''
     @ [CHR 0x27] @ user_input @ [CHR 0x27]
     @ '', using WHO or Mayo Clinic guidance. White background.''"

definition disease_prompt :: "string \<Rightarrow> string" where
  "disease_prompt disease_name =
     ''\<newline>        You are a trusted medical assistant. Give a comprehensive explanation about the disease: ''
     @ disease_name
     @ ''.\<newline>        Use only WHO, Mayo Clinic, or WebMD as your references.\<newline>\<newline>        Include:\<newline>        - Description of the disease\<newline>        - Common symptoms\<newline>        - Recommended treatments\<newline>        - Suggested medicines (generic if possible)\<newline>        - Nutrition advice if relevant\<newline>        ''"

definition disease_nutrition_prompt :: "string \<Rightarrow> int \<Rightarrow> gender \<Rightarrow> string" where
  "disease_nutrition_prompt disease_name age gender =
     ''Photorealistic nutrition plate for a person with '' @ disease_name
     @ '', based on WHO/Mayo Clinic dietary guidance. Age: '' @ str_int age
     @ '', Gender: '' @ str_gender gender @ ''.''"

definition disease_medicine_prompt :: "string \<Rightarrow> string" where
  "disease_medicine_prompt disease_name =
     ''High-resolution image of common medicines or treatment kits for '' @ disease_name
     @ '', recommended by WHO or Mayo Clinic. White background.''"

section \<open>The remote generation client\<close>

text \<open>
  The response types of the client library, with the fields the script reads. Every
  field is optional there, and the script's own guard
  \<open>part.inline_data and part.inline_data.data\<close> tests two of them.
\<close>

record blob =
  data :: "bytes option"

record part =
  inline_data :: "blob option"

record content =
  parts :: "part list option"

record candidate =
  content :: "content option"

record response =
  text_field :: "string option"
  candidates :: "candidate list option"

text \<open>
  The arguments of \<open>client.models.generate_content\<close>: the model name, \<open>contents\<close>
  (a list holding the prompt for the text calls, the bare prompt for the image calls) and
  the response modalities of the configuration, when one is passed.
\<close>

datatype contents = Prompt string | Prompts "string list"

record request =
  model :: string
  contents :: contents
  config :: "string list option"

text \<open>
  The remote service is a parameter: what it answers may depend on the calls made
  before (the log) and on the request. \<open>Inl e\<close> is the call raising \<open>e\<close>.
\<close>

type_synonym client = "request list \<Rightarrow> request \<Rightarrow> exn + response"

text \<open>
  The image library is a parameter too: \<open>Image.open(BytesIO(b))\<close> and
  \<open>img.save(buffered, format="PNG")\<close> followed by \<open>buffered.getvalue()\<close>; either may raise.
\<close>

record 'img PIL =
  Image_open :: "bytes \<Rightarrow> exn + 'img"
  save_PNG :: "'img \<Rightarrow> exn + bytes"

section \<open>base64.b64encode\<close>

definition b64_alphabet :: string where
  "b64_alphabet = ''ABCDEFGHIJKLMNOPQRSTUVWXYZabcdefghijklmnopqrstuvwxyz0123456789+/''"

definition b64_char :: "8 word \<Rightarrow> char" where
  "b64_char i = b64_alphabet ! unat (take_bit 6 i)"

text \<open>
  Three bytes become four characters of six bits each; a final group of one or two bytes
  is padded with \<open>=\<close>. The result of \<open>.decode()\<close> is the same ASCII text as a \<open>str\<close>.
\<close>

fun b64encode :: "bytes \<Rightarrow> string" where
  "b64encode [] = []"
| "b64encode [a] =
     [b64_char (drop_bit 2 a), b64_char (push_bit 4 (take_bit 2 a)), CHR ''='', CHR ''='']"
| "b64encode [a, b] =
     [b64_char (drop_bit 2 a),
      b64_char (or (push_bit 4 (take_bit 2 a)) (drop_bit 4 b)),
      b64_char (push_bit 2 (take_bit 4 b)), CHR ''='']"
| "b64encode (a # b # c # rest) =
     [b64_char (drop_bit 2 a),
      b64_char (or (push_bit 4 (take_bit 2 a)) (drop_bit 4 b)),
      b64_char (or (push_bit 2 (take_bit 4 b)) (drop_bit 6 c)),
      b64_char (take_bit 6 c)] @ b64encode rest"

section \<open>Script state\<close>

text \<open>
  One run of the script threads this state: the session's chat history (pairs of role and
  message; the message of an assistant turn is \<open>response.text\<close>, which may be \<open>None\<close>),
  the log of remote calls issued so far, and the Streamlit calls made, in order.
\<close>

type_synonym turn = "string \<times> string option"

datatype ui =
    StPageConfig string string
  | StTitle string
  | StMarkdown "string option"
  | StHtml string
  | StHeader string
  | StSubheader string
  | StTextInput string
  | StNumberInput string
  | StSelectbox string "string list"
  | StChatInput string
  | StTabs "string list"
  | StSpinner string
  | StChatMessage string "string option"
  | StWarning string
  | StError string

record state =
  chat_history :: "turn list"
  calls :: "request list"
  page :: "ui list"

definition st :: "ui \<Rightarrow> state \<Rightarrow> state" where
  "st u s = s\<lparr>page := page s @ [u]\<rparr>"

definition append_history :: "turn \<Rightarrow> state \<Rightarrow> state" where
  "append_history t s = s\<lparr>chat_history := chat_history s @ [t]\<rparr>"

definition generate_content :: "client \<Rightarrow> request \<Rightarrow> state \<Rightarrow> (exn + response) \<times> state" where
  "generate_content client req s = (client (calls s) req, s\<lparr>calls := calls s @ [req]\<rparr>)"

text \<open>
  \<open>try: body except Exception as e: handler\<close>. The body returns the exception it raised,
  if any, with the state reached at that point.
\<close>

definition try_except ::
  "(state \<Rightarrow> exn option \<times> state) \<Rightarrow> (exn \<Rightarrow> state \<Rightarrow> state) \<Rightarrow> state \<Rightarrow> state" where
  "try_except body handler s =
     (case body s of (None, s') \<Rightarrow> s' | (Some e, s') \<Rightarrow> handler e s')"

section \<open>Image sections\<close>

text \<open>
  \<open>resp.candidates[0].content.parts\<close>: subscripting \<open>None\<close> or an empty list, reading an
  attribute of \<open>None\<close> and iterating over \<open>None\<close> raise.
\<close>

definition response_parts :: "response \<Rightarrow> exn + part list" where
  "response_parts resp =
     (case candidates resp of
        None \<Rightarrow> Inl (Exception (CHR 0x27 # ''NoneType'' @ CHR 0x27 # '' object is not subscriptable''))
      | Some [] \<Rightarrow> Inl (Exception ''list index out of range'')
      | Some (c # _) \<Rightarrow>
          (case content c of
             None \<Rightarrow> Inl (Exception (CHR 0x27 # ''NoneType'' @ CHR 0x27 # '' object has no attribute ''
                                      @ CHR 0x27 # ''parts'' @ [CHR 0x27]))
           | Some ct \<Rightarrow>
               (case parts ct of
                  None \<Rightarrow> Inl (Exception (CHR 0x27 # ''NoneType'' @ CHR 0x27 # '' object is not iterable''))
                | Some ps \<Rightarrow> Inr ps)))"

text \<open>
  \<open>next((part.inline_data.data for part in parts
         if part.inline_data and part.inline_data.data), None)\<close>
\<close>

fun img_bytes :: "part list \<Rightarrow> bytes option" where
  "img_bytes [] = None"
| "img_bytes (p # ps) =
     (case inline_data p of
        None \<Rightarrow> img_bytes ps
      | Some b \<Rightarrow>
          (case data b of
             None \<Rightarrow> img_bytes ps
           | Some [] \<Rightarrow> img_bytes ps
           | Some (x # xs) \<Rightarrow> Some (x # xs)))"

text \<open>
  \<open>img = Image.open(BytesIO(img_bytes)); img.save(buffered, format="PNG");
  img_str = base64.b64encode(buffered.getvalue()).decode()\<close>
\<close>

definition img_str :: "'img PIL \<Rightarrow> bytes \<Rightarrow> exn + string" where
  "img_str pil b =
     (case Image_open pil b of
        Inl e \<Rightarrow> Inl e
      | Inr img \<Rightarrow>
          (case save_PNG pil img of
             Inl e \<Rightarrow> Inl e
           | Inr png \<Rightarrow> Inr (b64encode png)))"

text \<open>The nutrition and the medicine section differ in their prompt and in these labels.\<close>

datatype kind = Nutrition | Medicine

fun spinner_label :: "kind \<Rightarrow> string" where
  "spinner_label Nutrition = ''Generating nutrition image...''"
| "spinner_label Medicine = ''Generating medicine image...''"

fun heading :: "kind \<Rightarrow> string" where
  "heading Nutrition = ''<h4 style='text-align:center;'>Nutrition Suggestion</h4>''"
| "heading Medicine = ''<h4 style='text-align:center;'>Medicine Reference</h4>''"

fun no_image :: "kind \<Rightarrow> string" where
  "no_image Nutrition = ''No nutrition image received.''"
| "no_image Medicine = ''No medicine image received.''"

fun error_prefix :: "kind \<Rightarrow> string" where
  "error_prefix Nutrition = ''Nutrition image error: ''"
| "error_prefix Medicine = ''Medicine image error: ''"

definition img_tag :: "string \<Rightarrow> string" where
  "img_tag s =
     ''<div style='text-align:center;'><img src='data:image/png;base64,'' @ s
     @ CHR 0x27 # '' style='max-width:100%; border-radius:15px; box-shadow: 0 10px 20px rgba(0,0,0,0.2);'/></div>''"

definition image_request :: "string \<Rightarrow> request" where
  "image_request prompt =
     \<lparr>model = ''gemini-2.0-flash-preview-image-generation'', contents = Prompt prompt,
      config = Some [''TEXT'', ''IMAGE'']\<rparr>"

text \<open>
  What an image section shows once its call has answered \<open>r\<close>: the body of the
  \<open>try\<close> after the call, and the \<open>except\<close> clause.
\<close>

definition image_shown :: "'img PIL \<Rightarrow> kind \<Rightarrow> exn + response \<Rightarrow> ui list" where
  "image_shown pil k r =
     (case r of
        Inl e \<Rightarrow> [StError (error_prefix k @ str_exn e)]
      | Inr resp \<Rightarrow>
          (case response_parts resp of
             Inl e \<Rightarrow> [StError (error_prefix k @ str_exn e)]
           | Inr ps \<Rightarrow>
               (case img_bytes ps of
                  None \<Rightarrow> [StWarning (no_image k)]
                | Some [] \<Rightarrow> [StWarning (no_image k)]
                | Some (x # xs) \<Rightarrow>
                    (case img_str pil (x # xs) of
                       Inl e \<Rightarrow> [StError (error_prefix k @ str_exn e)]
                     | Inr s \<Rightarrow> [StHtml (heading k), StHtml (img_tag s)]))))"

definition image_body ::
  "client \<Rightarrow> 'img PIL \<Rightarrow> kind \<Rightarrow> string \<Rightarrow> state \<Rightarrow> exn option \<times> state" where
  "image_body client pil k prompt s =
     (case generate_content client (image_request prompt) s of
        (Inl e, s1) \<Rightarrow> (Some e, s1)
      | (Inr resp, s1) \<Rightarrow>
          (case response_parts resp of
             Inl e \<Rightarrow> (Some e, s1)
           | Inr ps \<Rightarrow>
               (case img_bytes ps of
                  None \<Rightarrow> (None, st (StWarning (no_image k)) s1)
                | Some [] \<Rightarrow> (None, st (StWarning (no_image k)) s1)
                | Some (x # xs) \<Rightarrow>
                    (case img_str pil (x # xs) of
                       Inl e \<Rightarrow> (Some e, s1)
                     | Inr s64 \<Rightarrow>
                         (None, st (StHtml (img_tag s64)) (st (StHtml (heading k)) s1))))))"

definition image_section ::
  "client \<Rightarrow> 'img PIL \<Rightarrow> kind \<Rightarrow> string \<Rightarrow> state \<Rightarrow> state" where
  "image_section client pil k prompt s =
     try_except (image_body client pil k prompt)
       (\<lambda>e. st (StError (error_prefix k @ str_exn e)))
       (st (StSpinner (spinner_label k)) s)"

section \<open>The two tabs\<close>

definition text_request :: "string \<Rightarrow> request" where
  "text_request prompt =
     \<lparr>model = ''gemini-2.5-flash-preview-05-20'', contents = Prompts [prompt], config = None\<rparr>"

text \<open>Lines 63 to 72: the text call of the chat tab and its \<open>except\<close> clause.\<close>

definition text_body :: "client \<Rightarrow> string \<Rightarrow> state \<Rightarrow> exn option \<times> state" where
  "text_body client prompt s =
     (case generate_content client (text_request prompt) s of
        (Inl e, s1) \<Rightarrow> (Some e, s1)
      | (Inr text_response, s1) \<Rightarrow>
          (None, append_history (''assistant'', text_field text_response) s1))"

definition text_handler :: "exn \<Rightarrow> state \<Rightarrow> state" where
  "text_handler e s =
     append_history (''assistant'', Some (''Error generating medical info: '' @ str_exn e)) s"

text \<open>Lines 75 to 79: both branches write the message under the turn's role.\<close>

definition display_history :: "state \<Rightarrow> state" where
  "display_history s =
     s\<lparr>page := page s @ map (\<lambda>(role, msg).
          if role = ''user'' then StChatMessage ''user'' msg
          else StChatMessage ''assistant'' msg) (chat_history s)\<rparr>"

text \<open>
  \<open>st.chat_input\<close> returns \<open>None\<close> until the user submits, so \<open>user_input\<close> is optional;
  \<open>if user_input:\<close> holds for a string that is present and not empty.
\<close>

definition tab1 ::
  "client \<Rightarrow> 'img PIL \<Rightarrow> string \<Rightarrow> int \<Rightarrow> gender \<Rightarrow> string option \<Rightarrow> state \<Rightarrow> state" where
  "tab1 client pil name age gender user_input s0 =
     (let s1 = st (StChatInput ''Describe your symptoms or ask a health-related question'')
                 (st (StSubheader ''Chat with the Medical Agent'') s0);
          s2 = (case user_input of
                  None \<Rightarrow> s1
                | Some [] \<Rightarrow> s1
                | Some (c # cs) \<Rightarrow>
                    try_except (text_body client (text_prompt name age gender (c # cs)))
                      text_handler
                      (st (StSpinner ''Generating response...'')
                         (append_history (''user'', Some (c # cs)) s1)));
          s3 = display_history s2;
          s4 = (case user_input of
                  None \<Rightarrow> s3
                | Some [] \<Rightarrow> s3
                | Some (c # cs) \<Rightarrow>
                    image_section client pil Nutrition (nutrition_prompt (c # cs) age gender) s3)
      in (case user_input of
            None \<Rightarrow> s4
          | Some [] \<Rightarrow> s4
          | Some (c # cs) \<Rightarrow>
              image_section client pil Medicine (medicine_prompt (c # cs)) s4))"

text \<open>Lines 156 to 163: the text call of the disease tab.\<close>

definition disease_body :: "client \<Rightarrow> string \<Rightarrow> state \<Rightarrow> exn option \<times> state" where
  "disease_body client prompt s =
     (case generate_content client (text_request prompt) s of
        (Inl e, s1) \<Rightarrow> (Some e, s1)
      | (Inr resp, s1) \<Rightarrow> (None, st (StMarkdown (text_field resp)) s1))"

definition disease_handler :: "exn \<Rightarrow> state \<Rightarrow> state" where
  "disease_handler e s = st (StError (''Error generating disease info: '' @ str_exn e)) s"

definition tab2 ::
  "client \<Rightarrow> 'img PIL \<Rightarrow> int \<Rightarrow> gender \<Rightarrow> string \<Rightarrow> state \<Rightarrow> state" where
  "tab2 client pil age gender disease_name s0 =
     (let s1 = st (StTextInput ''Enter Disease Name'')
                 (st (StSubheader ''Get Information About a Disease'') s0)
      in if disease_name = [] then s1
         else
           let s2 = try_except (disease_body client (disease_prompt disease_name))
                      disease_handler
                      (st (StSpinner ''Generating disease information...'') s1);
               s3 = image_section client pil Nutrition
                      (disease_nutrition_prompt disease_name age gender) s2
           in image_section client pil Medicine (disease_medicine_prompt disease_name) s3)"

section \<open>One run of the script\<close>

text \<open>
  \<open>load_dotenv()\<close> adds the variables of the \<open>.env\<close> file that the process environment
  does not set already; \<open>os.getenv\<close> reads the result.
\<close>

definition load_dotenv :: "(string \<rightharpoonup> string) \<Rightarrow> (string \<rightharpoonup> string) \<Rightarrow> (string \<rightharpoonup> string)" where
  "load_dotenv dotenv environ = (\<lambda>k. case environ k of Some v \<Rightarrow> Some v | None \<Rightarrow> dotenv k)"

definition os_getenv :: "(string \<rightharpoonup> string) \<Rightarrow> string \<Rightarrow> string option" where
  "os_getenv environ k = environ k"

record inputs =
  name :: string
  age :: int
  gender :: gender
  user_input :: "string option"
  disease_name :: string

text \<open>
  \<open>st.stop()\<close> ends the run where it is called. Otherwise the run reaches the footer.
  The emoji of the title and of the tab labels are written as their UTF-8 bytes.
\<close>

datatype run = Stopped "ui list" | Completed state

definition stethoscope :: string where
  "stethoscope = [CHR 0xF0, CHR 0x9F, CHR 0xA9, CHR 0xBA]"

definition speech_balloon :: string where
  "speech_balloon = [CHR 0xF0, CHR 0x9F, CHR 0x92, CHR 0xAC]"

definition microbe :: string where
  "microbe = [CHR 0xF0, CHR 0x9F, CHR 0xA6, CHR 0xA0]"

definition header_page :: "ui list" where
  "header_page =
     [StPageConfig ''Medical Information Agent'' stethoscope,
      StTitle (stethoscope @ '' AI Medical Information Agent''),
      StMarkdown (Some ''Get symptoms, treatments, medicines, and nutrition advice using trusted sources like WHO, Mayo Clinic, and WebMD.''),
      StHeader ''User Information'',
      StTextInput ''Name'',
      StNumberInput ''Age'',
      StSelectbox ''Gender'' [''Male'', ''Female'', ''Other''],
      StTabs [speech_balloon @ '' Chat with Agent'', microbe @ '' Disease Info'']]"

definition footer :: ui where
  "footer = StHtml ''<footer style='text-align:center; margin-top:3rem;'>Powered by Gemini 2.5 Flash & Gemini Image API</footer>''"

text \<open>
  The parameters: the \<open>.env\<close> file and the process environment, the remote service
  reached with a given key, the image library, the chat history kept in the session
  (\<open>None\<close> when the key \<open>chat_history\<close> is not in the session yet) and the widget values.
\<close>

definition script ::
  "(string \<rightharpoonup> string) \<Rightarrow> (string \<rightharpoonup> string) \<Rightarrow> (string \<Rightarrow> client) \<Rightarrow> 'img PIL
     \<Rightarrow> turn list option \<Rightarrow> inputs \<Rightarrow> run" where
  "script dotenv environ genai_Client pil session inp =
     (case os_getenv (load_dotenv dotenv environ) ''GOOGLE_API_KEY'' of
        None \<Rightarrow> Stopped [StError ''Missing GOOGLE_API_KEY in .env'']
      | Some [] \<Rightarrow> Stopped [StError ''Missing GOOGLE_API_KEY in .env'']
      | Some (k # ks) \<Rightarrow>
          (let client = genai_Client (k # ks);
               s0 = \<lparr>chat_history = (case session of None \<Rightarrow> [] | Some h \<Rightarrow> h),
                     calls = [], page = header_page\<rparr>;
               s1 = tab1 client pil (name inp) (age inp) (gender inp) (user_input inp) s0;
               s2 = tab2 client pil (age inp) (gender inp) (disease_name inp) s1
           in Completed (st footer s2)))"

text \<open>The remote calls issued and the Streamlit calls made by a run.\<close>

fun run_calls :: "run \<Rightarrow> request list" where
  "run_calls (Stopped p) = []"
| "run_calls (Completed s) = calls s"

fun run_page :: "run \<Rightarrow> ui list" where
  "run_page (Stopped p) = p"
| "run_page (Completed s) = page s"

section \<open>What each section shows, as a function of its call's answer\<close>

text \<open>The variable \<open>response_text\<close> of lines 68 and 71.\<close>

definition response_text :: "exn + response \<Rightarrow> string option" where
  "response_text r =
     (case r of
        Inr text_response \<Rightarrow> text_field text_response
      | Inl e \<Rightarrow> Some (''Error generating medical info: '' @ str_exn e))"

text \<open>Lines 161 and 163.\<close>

definition disease_shown :: "exn + response \<Rightarrow> ui" where
  "disease_shown r =
     (case r of
        Inr resp \<Rightarrow> StMarkdown (text_field resp)
      | Inl e \<Rightarrow> StError (''Error generating disease info: '' @ str_exn e))"

definition chat_message :: "turn \<Rightarrow> ui" where
  "chat_message t =
     (if fst t = ''user'' then StChatMessage ''user'' (snd t)
      else StChatMessage ''assistant'' (snd t))"

text \<open>
  A part carries image data when its \<open>inline_data\<close> is present and the \<open>data\<close> in it
  is present and not empty; \<open>carried\<close> gives those bytes.
\<close>

definition carried :: "part \<Rightarrow> bytes option" where
  "carried p =
     (case inline_data p of
        None \<Rightarrow> None
      | Some b \<Rightarrow> (case data b of None \<Rightarrow> None | Some [] \<Rightarrow> None | Some (x # xs) \<Rightarrow> Some (x # xs)))"

text \<open>A part whose \<open>inline_data\<close> is present with \<open>data\<close> absent or empty.\<close>

definition empty_envelope :: "part \<Rightarrow> bool" where
  "empty_envelope p =
     (case inline_data p of
        None \<Rightarrow> False
      | Some b \<Rightarrow> (case data b of None \<Rightarrow> True | Some d \<Rightarrow> d = []))"

fun is_warning :: "ui \<Rightarrow> bool" where
  "is_warning (StWarning w) = True"
| "is_warning u = False"

section \<open>Decoding base64\<close>

text \<open>
  The script only encodes: the string goes into a \<open>data:image/png;base64,\<close> URI that
  the browser decodes. To state what decoding gives back, this is the decoder of the same
  alphabet: four characters become three bytes, and a last group ending in one or two
  \<open>=\<close> becomes two bytes or one. A character outside the alphabet, or a length that is
  not a multiple of four, is rejected.
\<close>

fun index_of :: "'a \<Rightarrow> 'a list \<Rightarrow> nat option" where
  "index_of c [] = None"
| "index_of c (x # xs) = (if c = x then Some 0 else map_option Suc (index_of c xs))"

definition b64_index :: "char \<Rightarrow> 8 word option" where
  "b64_index c = map_option of_nat (index_of c b64_alphabet)"

definition decode_group :: "char \<Rightarrow> char \<Rightarrow> char \<Rightarrow> char \<Rightarrow> bytes option" where
  "decode_group c1 c2 c3 c4 =
     (case (b64_index c1, b64_index c2, b64_index c3, b64_index c4) of
        (Some i1, Some i2, Some i3, Some i4) \<Rightarrow>
          Some [or (push_bit 2 i1) (drop_bit 4 i2),
                or (push_bit 4 i2) (drop_bit 2 i3),
                or (push_bit 6 i3) i4]
      | _ \<Rightarrow> None)"

definition decode_last :: "char \<Rightarrow> char \<Rightarrow> char \<Rightarrow> char \<Rightarrow> bytes option" where
  "decode_last c1 c2 c3 c4 =
     (if c3 = CHR ''='' \<and> c4 = CHR ''='' then
        (case (b64_index c1, b64_index c2) of
           (Some i1, Some i2) \<Rightarrow> Some [or (push_bit 2 i1) (drop_bit 4 i2)]
         | _ \<Rightarrow> None)
      else if c4 = CHR ''='' then
        (case (b64_index c1, b64_index c2, b64_index c3) of
           (Some i1, Some i2, Some i3) \<Rightarrow>
             Some [or (push_bit 2 i1) (drop_bit 4 i2), or (push_bit 4 i2) (drop_bit 2 i3)]
         | _ \<Rightarrow> None)
      else decode_group c1 c2 c3 c4)"

fun b64decode :: "string \<Rightarrow> bytes option" where
  "b64decode [] = Some []"
| "b64decode [c1, c2, c3, c4] = decode_last c1 c2 c3 c4"
| "b64decode (c1 # c2 # c3 # c4 # rest) =
     (case decode_group c1 c2 c3 c4 of
        None \<Rightarrow> None
      | Some t \<Rightarrow> map_option ((@) t) (b64decode rest))"
| "b64decode cs = None"

section \<open>Stand-ins for the external services, for concrete runs\<close>

text \<open>A service that gives the same answer to every call.\<close>

definition always :: "exn + response \<Rightarrow> client" where
  "always r = (\<lambda>log req. r)"

text \<open>
  An image library whose images are their own bytes, and which identifies a file by the
  first byte of the PNG signature.
\<close>

definition stub_PIL :: "bytes PIL" where
  "stub_PIL =
     \<lparr>Image_open = (\<lambda>b. case b of
                        [] \<Rightarrow> Inl (Exception ''cannot identify image file'')
                      | x # xs \<Rightarrow> if x = 0x89 then Inr (x # xs)
                                  else Inl (Exception ''cannot identify image file'')),
      save_PNG = Inr\<rparr>"

definition image_response :: "bytes \<Rightarrow> response" where
  "image_response b =
     \<lparr>text_field = None,
      candidates = Some [\<lparr>content = Some \<lparr>parts = Some [\<lparr>inline_data = None\<rparr>,
                                                           \<lparr>inline_data = Some \<lparr>data = Some b\<rparr>\<rparr>]\<rparr>\<rparr>]\<rparr>"

definition blank :: state where
  "blank = \<lparr>chat_history = [], calls = [], page = []\<rparr>"

text \<open>
  A second stand-in, for one image: a single red pixel. \<open>red_pixel_source\<close> is a PNG
  file of it (signature, IHDR for 1 by 1 RGB, one IDAT deflated at level 9, IEND), and
  \<open>red_pixel_png\<close> is the PNG file written for it on saving (the same chunks, the
  IDAT deflated at the default level). The library reads either file as that image and
  rejects all other bytes.
\<close>

record raster =
  width :: nat
  height :: nat
  pixels :: bytes

definition red_pixel :: raster where
  "red_pixel = \<lparr>width = 1, height = 1, pixels = [0xFF, 0x00, 0x00]\<rparr>"

definition red_pixel_source :: bytes where
  "red_pixel_source = [
      0x89, 0x50, 0x4E, 0x47, 0x0D, 0x0A, 0x1A, 0x0A, 0x00, 0x00, 0x00, 0x0D,
      0x49, 0x48, 0x44, 0x52, 0x00, 0x00, 0x00, 0x01, 0x00, 0x00, 0x00, 0x01,
      0x08, 0x02, 0x00, 0x00, 0x00, 0x90, 0x77, 0x53, 0xDE, 0x00, 0x00, 0x00,
      0x0C, 0x49, 0x44, 0x41, 0x54, 0x78, 0xDA, 0x63, 0xF8, 0xCF, 0xC0, 0x00,
      0x00, 0x03, 0x01, 0x01, 0x00, 0xF7, 0x03, 0x41, 0x43, 0x00, 0x00, 0x00,
      0x00, 0x49, 0x45, 0x4E, 0x44, 0xAE, 0x42, 0x60, 0x82]"

definition red_pixel_png :: bytes where
  "red_pixel_png = [
      0x89, 0x50, 0x4E, 0x47, 0x0D, 0x0A, 0x1A, 0x0A, 0x00, 0x00, 0x00, 0x0D,
      0x49, 0x48, 0x44, 0x52, 0x00, 0x00, 0x00, 0x01, 0x00, 0x00, 0x00, 0x01,
      0x08, 0x02, 0x00, 0x00, 0x00, 0x90, 0x77, 0x53, 0xDE, 0x00, 0x00, 0x00,
      0x0C, 0x49, 0x44, 0x41, 0x54, 0x78, 0x9C, 0x63, 0xF8, 0xCF, 0xC0, 0x00,
      0x00, 0x03, 0x01, 0x01, 0x00, 0xC9, 0xFE, 0x92, 0xEF, 0x00, 0x00, 0x00,
      0x00, 0x49, 0x45, 0x4E, 0x44, 0xAE, 0x42, 0x60, 0x82]"

definition one_pixel_PIL :: "raster PIL" where
  "one_pixel_PIL =
     \<lparr>Image_open = (\<lambda>b. if b = red_pixel_source \<or> b = red_pixel_png then Inr red_pixel
                        else Inl (Exception ''cannot identify image file'')),
      save_PNG = (\<lambda>img. if img = red_pixel then Inr red_pixel_png
                        else Inl (Exception ''cannot write image as PNG''))\<rparr>"

text \<open>
  The chat history held by the session after a run; a stopped run never reached the lines
  that touch it. \<open>stored\<close> reads a session that has no history yet as the empty one.
\<close>

fun run_session :: "turn list option \<Rightarrow> run \<Rightarrow> turn list option" where
  "run_session session (Stopped p) = session"
| "run_session session (Completed s) = Some (chat_history s)"

definition stored :: "turn list option \<Rightarrow> turn list" where
  "stored session = (case session of None \<Rightarrow> [] | Some h \<Rightarrow> h)"

section \<open>Properties of the prompt builder\<close>

lemma sublist_in_suffix: "sublist xs zs \<Longrightarrow> sublist xs (ys @ zs)"
  by (auto simp: sublist_def) (metis append.assoc)

lemma lower_append: "lower (xs @ ys) = lower xs @ lower ys"
  by (simp add: lower_def)

lemma text_prompt_split:
  "text_prompt n a g topic =
     (''\<newline>        You are a helpful, trustworthy medical assistant AI. Use only verified sources like WHO, Mayo Clinic, and WebMD.\<newline>        Patient Name: ''
      @ n @ ''\<newline>        Age: '' @ str_int a @ ''\<newline>        Gender: '' @ str_gender g
      @ ''\<newline>\<newline>        The user asked: '')
     @ topic
     @ ''\<newline>\<newline>        Provide clear, trustworthy, and actionable information. Include:\<newline>        - Symptoms\<newline>        - Treatments\<newline>        - Medicines\<newline>        - Nutrition suggestions (if applicable)\<newline>        ''"
  by (simp add: text_prompt_def)

lemma text_prompt_tail_markers:
  "sublist ''Symptoms'' ''\<newline>\<newline>        Provide clear, trustworthy, and actionable information. Include:\<newline>        - Symptoms\<newline>        - Treatments\<newline>        - Medicines\<newline>        - Nutrition suggestions (if applicable)\<newline>        ''"
  "sublist ''Treatments'' ''\<newline>\<newline>        Provide clear, trustworthy, and actionable information. Include:\<newline>        - Symptoms\<newline>        - Treatments\<newline>        - Medicines\<newline>        - Nutrition suggestions (if applicable)\<newline>        ''"
  "sublist ''Medicines'' ''\<newline>\<newline>        Provide clear, trustworthy, and actionable information. Include:\<newline>        - Symptoms\<newline>        - Treatments\<newline>        - Medicines\<newline>        - Nutrition suggestions (if applicable)\<newline>        ''"
  "sublist ''Nutrition'' ''\<newline>\<newline>        Provide clear, trustworthy, and actionable information. Include:\<newline>        - Symptoms\<newline>        - Treatments\<newline>        - Medicines\<newline>        - Nutrition suggestions (if applicable)\<newline>        ''"
  by code_simp+

lemma text_prompt_tail_markers_lower:
  "sublist ''symptoms'' (lower ''\<newline>\<newline>        Provide clear, trustworthy, and actionable information. Include:\<newline>        - Symptoms\<newline>        - Treatments\<newline>        - Medicines\<newline>        - Nutrition suggestions (if applicable)\<newline>        '')"
  "sublist ''treatments'' (lower ''\<newline>\<newline>        Provide clear, trustworthy, and actionable information. Include:\<newline>        - Symptoms\<newline>        - Treatments\<newline>        - Medicines\<newline>        - Nutrition suggestions (if applicable)\<newline>        '')"
  "sublist ''medicines'' (lower ''\<newline>\<newline>        Provide clear, trustworthy, and actionable information. Include:\<newline>        - Symptoms\<newline>        - Treatments\<newline>        - Medicines\<newline>        - Nutrition suggestions (if applicable)\<newline>        '')"
  "sublist ''nutrition'' (lower ''\<newline>\<newline>        Provide clear, trustworthy, and actionable information. Include:\<newline>        - Symptoms\<newline>        - Treatments\<newline>        - Medicines\<newline>        - Nutrition suggestions (if applicable)\<newline>        '')"
  by code_simp+

text \<open>
  Claim C1. For every name, age, gender and topic (non-empty or not), the symptom-query
  prompt \<open>text_prompt\<close> contains the topic verbatim and the four content markers, as the
  capitalised words the f-string spells (\<open>Symptoms\<close>, \<open>Treatments\<close>, \<open>Medicines\<close>,
  \<open>Nutrition\<close>) and, compared case-insensitively, as the words \<open>symptoms\<close>,
  \<open>treatments\<close>, \<open>medicines\<close>, \<open>nutrition\<close>.
\<close>

theorem text_prompt_contains_topic_and_markers:
  "sublist topic (text_prompt n a g topic)
   \<and> sublist ''Symptoms'' (text_prompt n a g topic)
   \<and> sublist ''Treatments'' (text_prompt n a g topic)
   \<and> sublist ''Medicines'' (text_prompt n a g topic)
   \<and> sublist ''Nutrition'' (text_prompt n a g topic)
   \<and> sublist ''symptoms'' (lower (text_prompt n a g topic))
   \<and> sublist ''treatments'' (lower (text_prompt n a g topic))
   \<and> sublist ''medicines'' (lower (text_prompt n a g topic))
   \<and> sublist ''nutrition'' (lower (text_prompt n a g topic))"
proof -
  have topic: "sublist topic (text_prompt n a g topic)"
    unfolding text_prompt_split by (rule sublist_appendI)
  have upper: "sublist ''Symptoms'' (text_prompt n a g topic)"
    "sublist ''Treatments'' (text_prompt n a g topic)"
    "sublist ''Medicines'' (text_prompt n a g topic)"
    "sublist ''Nutrition'' (text_prompt n a g topic)"
    unfolding text_prompt_split
    by (intro sublist_in_suffix text_prompt_tail_markers)+
  have low: "sublist ''symptoms'' (lower (text_prompt n a g topic))"
    "sublist ''treatments'' (lower (text_prompt n a g topic))"
    "sublist ''medicines'' (lower (text_prompt n a g topic))"
    "sublist ''nutrition'' (lower (text_prompt n a g topic))"
    unfolding text_prompt_split lower_append
    by (intro sublist_in_suffix text_prompt_tail_markers_lower)+
  from topic upper low show ?thesis by simp
qed

section \<open>Each section in closed form\<close>

text \<open>
  Every \<open>try\<close> block of the script issues its call, and then shows or records a
  function of that call's answer alone, whether the answer is a response or an exception.
\<close>

lemma image_section_eq:
  "image_section client pil k prompt s =
     s\<lparr>calls := calls s @ [image_request prompt],
       page := page s @ StSpinner (spinner_label k)
                 # image_shown pil k (client (calls s) (image_request prompt))\<rparr>"
  by (simp add: image_section_def try_except_def image_body_def generate_content_def st_def
        image_shown_def split: sum.split option.split list.split)

lemma text_section_eq:
  "try_except (text_body client p) text_handler s =
     s\<lparr>calls := calls s @ [text_request p],
       chat_history := chat_history s
         @ [(''assistant'', response_text (client (calls s) (text_request p)))]\<rparr>"
  by (simp add: try_except_def text_body_def text_handler_def generate_content_def
        append_history_def response_text_def split: sum.split)

lemma disease_section_eq:
  "try_except (disease_body client p) disease_handler s =
     s\<lparr>calls := calls s @ [text_request p],
       page := page s @ [disease_shown (client (calls s) (text_request p))]\<rparr>"
  by (simp add: try_except_def disease_body_def disease_handler_def generate_content_def st_def
        disease_shown_def split: sum.split)

lemma display_history_eq:
  "display_history s = s\<lparr>page := page s @ map chat_message (chat_history s)\<rparr>"
  by (simp add: display_history_def chat_message_def case_prod_unfold)

lemma tab1_eq:
  "tab1 client pil n a g (Some (c # cs)) s =
     (let t = text_request (text_prompt n a g (c # cs));
          nu = image_request (nutrition_prompt (c # cs) a g);
          me = image_request (medicine_prompt (c # cs));
          h = chat_history s @ [(''user'', Some (c # cs)),
                (''assistant'', response_text (client (calls s) t))]
      in \<lparr>chat_history = h,
          calls = calls s @ [t, nu, me],
          page = page s
            @ [StSubheader ''Chat with the Medical Agent'',
               StChatInput ''Describe your symptoms or ask a health-related question'',
               StSpinner ''Generating response...'']
            @ map chat_message h
            @ StSpinner (spinner_label Nutrition)
                # image_shown pil Nutrition (client (calls s @ [t]) nu)
            @ StSpinner (spinner_label Medicine)
                # image_shown pil Medicine (client (calls s @ [t, nu]) me)\<rparr>)"
  by (simp add: tab1_def Let_def image_section_eq text_section_eq display_history_eq st_def
        append_history_def)


lemma tab1_None: "tab1 client pil n a g None s =
     s\<lparr>page := page s
        @ [StSubheader ''Chat with the Medical Agent'',
           StChatInput ''Describe your symptoms or ask a health-related question'']
        @ map chat_message (chat_history s)\<rparr>"
  by (simp add: tab1_def Let_def display_history_eq st_def)

lemma tab1_empty: "tab1 client pil n a g (Some []) s =
     s\<lparr>page := page s
        @ [StSubheader ''Chat with the Medical Agent'',
           StChatInput ''Describe your symptoms or ask a health-related question'']
        @ map chat_message (chat_history s)\<rparr>"
  by (simp add: tab1_def Let_def display_history_eq st_def)

lemma tab2_empty: "tab2 client pil a g [] s =
     s\<lparr>page := page s
        @ [StSubheader ''Get Information About a Disease'', StTextInput ''Enter Disease Name'']\<rparr>"
  by (simp add: tab2_def Let_def st_def)

lemma tab2_eq:
  "tab2 client pil a g (c # cs) s =
     (let t = text_request (disease_prompt (c # cs));
          nu = image_request (disease_nutrition_prompt (c # cs) a g);
          me = image_request (disease_medicine_prompt (c # cs))
      in s\<lparr>calls := calls s @ [t, nu, me],
           page := page s
             @ [StSubheader ''Get Information About a Disease'',
                StTextInput ''Enter Disease Name'',
                StSpinner ''Generating disease information...'',
                disease_shown (client (calls s) t)]
             @ StSpinner (spinner_label Nutrition)
                 # image_shown pil Nutrition (client (calls s @ [t]) nu)
             @ StSpinner (spinner_label Medicine)
                 # image_shown pil Medicine (client (calls s @ [t, nu]) me)\<rparr>)"
  by (cases s) (simp add: tab2_def Let_def image_section_eq disease_section_eq st_def)

section \<open>Empty topics\<close>

text \<open>
  Claim C3. With an empty topic no remote call is issued. The chat tab issues none when the
  chat input is absent or empty, the disease tab issues none when the disease name is
  empty, and a run of the whole script in which both are empty issues no call at all: its
  call log is empty, for every environment, service, image library, session and sidebar
  input.
\<close>

theorem empty_topic_no_remote_call:
  "calls (tab1 client pil n a g None s) = calls s
   \<and> calls (tab1 client pil n a g (Some []) s) = calls s
   \<and> calls (tab2 client pil a g [] s) = calls s
   \<and> run_calls (script dotenv environ genai_Client pil session
         (inp\<lparr>user_input := None, disease_name := []\<rparr>)) = []
   \<and> run_calls (script dotenv environ genai_Client pil session
         (inp\<lparr>user_input := Some [], disease_name := []\<rparr>)) = []"
  by (simp add: tab1_None tab1_empty tab2_empty script_def Let_def st_def
        split: option.split list.split)

section \<open>Extraction of the image bytes\<close>

lemma img_bytes_first:
  "img_bytes ps = (case List.map_filter carried ps of [] \<Rightarrow> None | b # bs \<Rightarrow> Some b)"
  by (induction ps)
     (simp_all add: List.map_filter_simps carried_def split: option.split list.split)

lemma img_bytes_not_empty: "img_bytes ps \<noteq> Some []"
  by (induction ps) (simp_all split: option.split list.split)

lemma img_bytes_empty_envelopes: "list_all empty_envelope ps \<Longrightarrow> img_bytes ps = None"
  by (induction ps) (auto simp: empty_envelope_def split: option.splits list.splits)

section \<open>A failing text call\<close>

text \<open>
  Claim C4. If the text call of the chat tab raises \<open>e\<close>, the history gains the user turn
  and an assistant turn whose message is \<open>Error generating medical info: \<close> followed by
  \<open>str(e)\<close> (so it contains the error's message), and the nutrition and the medicine call are
  still issued after it, each section showing what its own answer determines.
\<close>

theorem text_failure_recorded_images_still_requested:
  assumes "client (calls s) (text_request (text_prompt n a g (c # cs))) = Inl e"
  shows "chat_history (tab1 client pil n a g (Some (c # cs)) s) =
           chat_history s @ [(''user'', Some (c # cs)),
             (''assistant'', Some (''Error generating medical info: '' @ str_exn e))]
         \<and> sublist (str_exn e) (''Error generating medical info: '' @ str_exn e)
         \<and> calls (tab1 client pil n a g (Some (c # cs)) s) =
             calls s @ [text_request (text_prompt n a g (c # cs)),
                        image_request (nutrition_prompt (c # cs) a g),
                        image_request (medicine_prompt (c # cs))]
         \<and> suffix
             (StSpinner (spinner_label Nutrition)
                # image_shown pil Nutrition
                    (client (calls s @ [text_request (text_prompt n a g (c # cs))])
                       (image_request (nutrition_prompt (c # cs) a g)))
              @ StSpinner (spinner_label Medicine)
                # image_shown pil Medicine
                    (client (calls s @ [text_request (text_prompt n a g (c # cs)),
                                        image_request (nutrition_prompt (c # cs) a g)])
                       (image_request (medicine_prompt (c # cs)))))
             (page (tab1 client pil n a g (Some (c # cs)) s))"
proof -
  let ?t = "text_request (text_prompt n a g (c # cs))"
  let ?nu = "image_request (nutrition_prompt (c # cs) a g)"
  let ?me = "image_request (medicine_prompt (c # cs))"
  let ?tail = "StSpinner (spinner_label Nutrition)
                 # image_shown pil Nutrition (client (calls s @ [?t]) ?nu)
               @ StSpinner (spinner_label Medicine)
                 # image_shown pil Medicine (client (calls s @ [?t, ?nu]) ?me)"
  have rt: "response_text (client (calls s) ?t)
              = Some (''Error generating medical info: '' @ str_exn e)"
    using assms by (simp add: response_text_def)
  have hist: "chat_history (tab1 client pil n a g (Some (c # cs)) s) =
           chat_history s @ [(''user'', Some (c # cs)),
             (''assistant'', Some (''Error generating medical info: '' @ str_exn e))]"
    unfolding tab1_eq Let_def rt by simp
  have sub: "sublist (str_exn e) (''Error generating medical info: '' @ str_exn e)"
    by (rule sublist_append_leftI)
  have cl: "calls (tab1 client pil n a g (Some (c # cs)) s) = calls s @ [?t, ?nu, ?me]"
    unfolding tab1_eq Let_def by simp
  have "\<exists>pre. page (tab1 client pil n a g (Some (c # cs)) s) = pre @ ?tail"
    unfolding tab1_eq Let_def state.simps by (metis append.assoc)
  then have pg: "suffix ?tail (page (tab1 client pil n a g (Some (c # cs)) s))"
    by (auto simp: suffix_def)
  from hist sub cl pg show ?thesis by blast
qed

theorem text_failure_witness:
  "chat_history (tab1 (always (Inl (Exception ''503 UNAVAILABLE''))) stub_PIL ''Ann'' 30 Male
      (Some ''fever'') blank) =
     [(''user'', Some ''fever''),
      (''assistant'', Some ''Error generating medical info: 503 UNAVAILABLE'')]
   \<and> length (calls (tab1 (always (Inl (Exception ''503 UNAVAILABLE''))) stub_PIL ''Ann'' 30 Male
      (Some ''fever'') blank)) = 3"
proof -
  have h: "always (Inl (Exception ''503 UNAVAILABLE'')) (calls blank)
             (text_request (text_prompt ''Ann'' 30 Male ''fever'')) = Inl (Exception ''503 UNAVAILABLE'')"
    by (simp add: always_def)
  show ?thesis
    using text_failure_recorded_images_still_requested
      [where client = "always (Inl (Exception ''503 UNAVAILABLE''))" and s = blank
         and n = "''Ann''" and a = 30 and g = Male and c = "CHR ''f''" and cs = "''ever''"
         and e = "Exception ''503 UNAVAILABLE''" and pil = stub_PIL, OF h]
    by (simp add: blank_def)
qed

section \<open>Independence of the sections\<close>

text \<open>
  Claim C5. Every remote call and every decode step is guarded on its own. For every
  service and every image library, failing wherever they may, a tab with a non-empty topic
  issues its three calls in order (text, nutrition image, medicine image), and what each
  section records or shows is determined by the answer to its own call: the assistant turn
  by the text call, each image block by its image call, through \<open>image_shown\<close>, whose
  branches are the response, the missing image and every exception of the call, of the
  extraction and of the decode step. No failure of one section changes the others.
\<close>

theorem sections_independently_guarded:
  "tab1 client pil n a g (Some (c # cs)) s =
     (let t = text_request (text_prompt n a g (c # cs));
          nu = image_request (nutrition_prompt (c # cs) a g);
          me = image_request (medicine_prompt (c # cs));
          h = chat_history s @ [(''user'', Some (c # cs)),
                (''assistant'', response_text (client (calls s) t))]
      in \<lparr>chat_history = h,
          calls = calls s @ [t, nu, me],
          page = page s
            @ [StSubheader ''Chat with the Medical Agent'',
               StChatInput ''Describe your symptoms or ask a health-related question'',
               StSpinner ''Generating response...'']
            @ map chat_message h
            @ StSpinner (spinner_label Nutrition)
                # image_shown pil Nutrition (client (calls s @ [t]) nu)
            @ StSpinner (spinner_label Medicine)
                # image_shown pil Medicine (client (calls s @ [t, nu]) me)\<rparr>)
   \<and> tab2 client pil a g (d # ds) s =
     (let t = text_request (disease_prompt (d # ds));
          nu = image_request (disease_nutrition_prompt (d # ds) a g);
          me = image_request (disease_medicine_prompt (d # ds))
      in s\<lparr>calls := calls s @ [t, nu, me],
           page := page s
             @ [StSubheader ''Get Information About a Disease'',
                StTextInput ''Enter Disease Name'',
                StSpinner ''Generating disease information...'',
                disease_shown (client (calls s) t)]
             @ StSpinner (spinner_label Nutrition)
                 # image_shown pil Nutrition (client (calls s @ [t]) nu)
             @ StSpinner (spinner_label Medicine)
                 # image_shown pil Medicine (client (calls s @ [t, nu]) me)\<rparr>)"
  using tab1_eq [of client pil n a g c cs s] tab2_eq [of client pil a g d ds s] by blast

section \<open>The conversation history\<close>

lemma chat_history_tab1:
  "chat_history (tab1 client pil n a g u s) =
     chat_history s @
       (case u of
          None \<Rightarrow> []
        | Some [] \<Rightarrow> []
        | Some (c # cs) \<Rightarrow>
            [(''user'', Some (c # cs)),
             (''assistant'',
              response_text (client (calls s) (text_request (text_prompt n a g (c # cs)))))])"
  by (simp add: tab1_None tab1_empty tab1_eq Let_def split: option.split list.split)

lemma chat_history_tab2: "chat_history (tab2 client pil a g d s) = chat_history s"
  by (cases d) (simp_all add: tab2_empty tab2_eq Let_def)

text \<open>
  Claim C6. The conversation history is append-only. The chat tab leaves the stored turns
  in place and appends nothing (empty input) or a user turn followed by an assistant turn;
  the disease tab, the image sections and the display loop do not change the history; and
  across a whole run the history stored in the session is a prefix of the one stored
  afterwards.
\<close>

theorem history_append_only:
  "chat_history (tab1 client pil n a g u s) =
     chat_history s @
       (case u of
          None \<Rightarrow> []
        | Some [] \<Rightarrow> []
        | Some (c # cs) \<Rightarrow>
            [(''user'', Some (c # cs)),
             (''assistant'',
              response_text (client (calls s) (text_request (text_prompt n a g (c # cs)))))])
   \<and> chat_history (tab2 client pil a g d s) = chat_history s
   \<and> chat_history (image_section client pil k prompt s) = chat_history s
   \<and> chat_history (display_history s) = chat_history s
   \<and> prefix (stored session)
         (stored (run_session session (script dotenv environ genai_Client pil session inp)))"
proof -
  have t3: "chat_history (image_section client pil k prompt s) = chat_history s"
    by (simp add: image_section_eq)
  have t4: "chat_history (display_history s) = chat_history s"
    by (simp add: display_history_eq)
  have t5: "prefix (stored session)
         (stored (run_session session (script dotenv environ genai_Client pil session inp)))"
    by (simp add: script_def Let_def st_def chat_history_tab1 chat_history_tab2 stored_def
          split: option.split list.split)
  from chat_history_tab1 [of client pil n a g u s] chat_history_tab2 [of client pil a g d s]
    t3 t4 t5
  show ?thesis by blast
qed

section \<open>Undecodable image bytes\<close>

text \<open>
  Claim C7, as stated, has the caller display a warning when the bytes cannot be decoded.
  On bytes the image library cannot identify the section shows an error box
  (\<open>st.error\<close>) and no warning (\<open>st.warning\<close> is what the script uses when no image
  was received).
\<close>

theorem undecodable_bytes_shown_as_error_not_warning:
  "page (image_section (always (Inr (image_response [0x00]))) stub_PIL Nutrition ''plate'' blank) =
     [StSpinner ''Generating nutrition image...'',
      StError ''Nutrition image error: cannot identify image file'']
   \<and> filter is_warning
         (page (image_section (always (Inr (image_response [0x00]))) stub_PIL Nutrition ''plate''
            blank)) = []"
  by (simp add: image_section_eq image_shown_def always_def image_response_def stub_PIL_def
        response_parts_def img_str_def blank_def)

text \<open>
  Claim C7, amended. If the decode step on the extracted bytes raises \<open>e\<close> (opening the
  image, or saving it as PNG), the exception is caught in the section: the section shows the
  error box \<open>Nutrition image error: \<close> or \<open>Medicine image error: \<close> followed by
  \<open>str(e)\<close>, and a section that follows still issues its call and shows its own result.
\<close>

theorem codec_error_recovered_locally:
  assumes "client (calls s) (image_request prompt) = Inr resp"
    and "response_parts resp = Inr ps"
    and "img_bytes ps = Some b"
    and "img_str pil b = Inl e"
  shows "page (image_section client pil k prompt s) =
           page s @ [StSpinner (spinner_label k), StError (error_prefix k @ str_exn e)]
         \<and> page (image_section client' pil' k' prompt' (image_section client pil k prompt s)) =
           page s @ [StSpinner (spinner_label k), StError (error_prefix k @ str_exn e)]
             @ StSpinner (spinner_label k')
                 # image_shown pil' k' (client' (calls s @ [image_request prompt])
                                          (image_request prompt'))"
proof -
  from assms(3) obtain x xs where b: "b = x # xs"
    using img_bytes_not_empty [of ps] by (cases b) auto
  have shown: "image_shown pil k (client (calls s) (image_request prompt)) =
                 [StError (error_prefix k @ str_exn e)]"
    using assms b by (simp add: image_shown_def)
  show ?thesis
    by (simp add: image_section_eq shown)
qed

theorem codec_error_witness:
  "page (image_section (always (Inr (image_response [0x00]))) stub_PIL Medicine ''kit''
      (image_section (always (Inr (image_response [0x00]))) stub_PIL Nutrition ''plate'' blank)) =
     [StSpinner ''Generating nutrition image...'',
      StError ''Nutrition image error: cannot identify image file'',
      StSpinner ''Generating medicine image...'',
      StError ''Medicine image error: cannot identify image file'']"
proof -
  have h1: "always (Inr (image_response [0x00])) (calls blank) (image_request ''plate'')
              = Inr (image_response [0x00])"
    by (simp add: always_def)
  have h2: "response_parts (image_response [0x00])
              = Inr [\<lparr>inline_data = None\<rparr>, \<lparr>inline_data = Some \<lparr>data = Some [0x00]\<rparr>\<rparr>]"
    by (simp add: response_parts_def image_response_def)
  have h3: "img_bytes [\<lparr>inline_data = None\<rparr>, \<lparr>inline_data = Some \<lparr>data = Some [0x00]\<rparr>\<rparr>]
              = Some [0x00]"
    by simp
  have h4: "img_str stub_PIL [0x00] = Inl (Exception ''cannot identify image file'')"
    by (simp add: img_str_def stub_PIL_def)
  show ?thesis
    using codec_error_recovered_locally
      [where client = "always (Inr (image_response [0x00]))" and s = blank
         and prompt = "''plate''" and k = Nutrition and pil = stub_PIL
         and client' = "always (Inr (image_response [0x00]))" and pil' = stub_PIL
         and k' = Medicine and prompt' = "''kit''", OF h1 h2 h3 h4]
    by (simp add: blank_def image_shown_def always_def image_response_def stub_PIL_def
          response_parts_def img_str_def)
qed

section \<open>Startup without the API key\<close>

text \<open>
  Claim C9. If \<open>GOOGLE_API_KEY\<close> is absent from the environment the script reads (the
  process environment once \<open>load_dotenv()\<close> has run), the run stops with the single
  message \<open>Missing GOOGLE_API_KEY in .env\<close>: no widget is created, no remote call is
  issued and the session is left as it was.
\<close>

theorem missing_api_key_halts:
  assumes "os_getenv (load_dotenv dotenv environ) ''GOOGLE_API_KEY'' = None"
  shows "script dotenv environ genai_Client pil session inp =
           Stopped [StError ''Missing GOOGLE_API_KEY in .env'']
         \<and> run_page (script dotenv environ genai_Client pil session inp) =
           [StError ''Missing GOOGLE_API_KEY in .env'']
         \<and> run_calls (script dotenv environ genai_Client pil session inp) = []
         \<and> run_session session (script dotenv environ genai_Client pil session inp) = session"
  using assms by (simp add: script_def)

theorem missing_api_key_witness:
  "os_getenv (load_dotenv Map.empty [''PATH'' \<mapsto> ''/usr/bin'']) ''GOOGLE_API_KEY'' = None
   \<and> script Map.empty [''PATH'' \<mapsto> ''/usr/bin''] (\<lambda>key. always (Inr (image_response [0x89])))
         stub_PIL None
         \<lparr>name = ''Ann'', age = 30, gender = Male, user_input = Some ''fever'',
          disease_name = ''flu''\<rparr>
       = Stopped [StError ''Missing GOOGLE_API_KEY in .env'']"
proof -
  have h: "os_getenv (load_dotenv Map.empty [''PATH'' \<mapsto> ''/usr/bin'']) ''GOOGLE_API_KEY'' = None"
    by (simp add: os_getenv_def load_dotenv_def)
  show ?thesis
    using h missing_api_key_halts [OF h, of "\<lambda>key. always (Inr (image_response [0x89]))"
      stub_PIL None "\<lparr>name = ''Ann'', age = 30, gender = Male, user_input = Some ''fever'',
          disease_name = ''flu''\<rparr>"]
    by simp
qed

section \<open>Parts with an empty inline-data envelope\<close>

text \<open>
  Claim C10. A part whose \<open>inline_data\<close> is present but whose \<open>data\<close> is absent or
  empty is skipped by the extraction, which never returns empty bytes; a response whose
  parts are all of that kind yields no image, and the section shows the notice that no
  image was received.
\<close>

theorem empty_inline_data_not_an_image:
  assumes "list_all empty_envelope ps" and "response_parts resp = Inr ps"
  shows "img_bytes ps = None
         \<and> image_shown pil k (Inr resp) = [StWarning (no_image k)]
         \<and> img_bytes (\<lparr>inline_data = Some \<lparr>data = None\<rparr>\<rparr> # qs) = img_bytes qs
         \<and> img_bytes (\<lparr>inline_data = Some \<lparr>data = Some []\<rparr>\<rparr> # qs) = img_bytes qs
         \<and> img_bytes qs \<noteq> Some []"
  using assms img_bytes_empty_envelopes [of ps] img_bytes_not_empty [of qs]
  by (simp add: image_shown_def)

theorem empty_inline_data_witness:
  "list_all empty_envelope
     [\<lparr>inline_data = Some \<lparr>data = Some []\<rparr>\<rparr>, \<lparr>inline_data = Some \<lparr>data = None\<rparr>\<rparr>]
   \<and> image_shown stub_PIL Nutrition
        (Inr \<lparr>text_field = None,
              candidates = Some [\<lparr>content = Some \<lparr>parts = Some
                [\<lparr>inline_data = Some \<lparr>data = Some []\<rparr>\<rparr>,
                 \<lparr>inline_data = Some \<lparr>data = None\<rparr>\<rparr>]\<rparr>\<rparr>]\<rparr>)
       = [StWarning ''No nutrition image received.'']"
proof -
  have h1: "list_all empty_envelope
     [\<lparr>inline_data = Some \<lparr>data = Some []\<rparr>\<rparr>, \<lparr>inline_data = Some \<lparr>data = None\<rparr>\<rparr>]"
    by (simp add: empty_envelope_def)
  have h2: "response_parts \<lparr>text_field = None,
              candidates = Some [\<lparr>content = Some \<lparr>parts = Some
                [\<lparr>inline_data = Some \<lparr>data = Some []\<rparr>\<rparr>,
                 \<lparr>inline_data = Some \<lparr>data = None\<rparr>\<rparr>]\<rparr>\<rparr>]\<rparr>
            = Inr [\<lparr>inline_data = Some \<lparr>data = Some []\<rparr>\<rparr>, \<lparr>inline_data = Some \<lparr>data = None\<rparr>\<rparr>]"
    by (simp add: response_parts_def)
  show ?thesis
    using h1 empty_inline_data_not_an_image [OF h1 h2, of stub_PIL Nutrition]
    by simp
qed

section \<open>A response without candidates\<close>

text \<open>
  Claim C2 says that a response in which no part carries image data gives the empty
  result and not an error. The scan itself does (\<open>img_bytes_first\<close>: the result is the
  first carried image of the list, or nothing). But on a response whose candidate list is
  empty, \<open>candidates[0]\<close> raises before the scan starts, and the section reports
  \<open>Nutrition image error: list index out of range\<close> instead of the notice that no image
  was received.
\<close>

theorem no_candidates_reported_as_error:
  "page (image_section (always (Inr \<lparr>text_field = Some ''Blocked'', candidates = Some []\<rparr>))
           stub_PIL Nutrition ''plate'' blank) =
     [StSpinner ''Generating nutrition image...'',
      StError ''Nutrition image error: list index out of range'']"
  by (simp add: image_section_eq image_shown_def always_def response_parts_def blank_def)

section \<open>The base64 round trip\<close>

lemma index_alphabet:
  "list_all (\<lambda>i. index_of (b64_alphabet ! i) b64_alphabet = Some i) [0..<64]"
  by code_simp

lemma alphabet_no_pad:
  "list_all (\<lambda>i. b64_alphabet ! i \<noteq> CHR ''='') [0..<64]"
  by code_simp

lemma sextet_less: "unat (take_bit 6 (w :: 8 word)) < 64"
proof -
  have "unat (take_bit 6 w) = take_bit 6 (unat w)"
    by (simp add: unsigned_take_bit_eq)
  also have "\<dots> < 2 ^ 6"
    by (rule take_bit_nat_less_exp)
  finally show ?thesis by simp
qed

lemma b64_index_char: "b64_index (b64_char w) = Some (take_bit 6 w)"
proof -
  have "index_of (b64_alphabet ! unat (take_bit 6 w)) b64_alphabet = Some (unat (take_bit 6 w))"
    using index_alphabet sextet_less [of w] by (simp add: list_all_iff)
  then show ?thesis
    by (simp add: b64_index_def b64_char_def)
qed

lemma b64_char_not_pad: "b64_char w \<noteq> CHR ''=''"
  using alphabet_no_pad sextet_less [of w] by (simp add: list_all_iff b64_char_def)

lemma bit_index_cases:
  assumes "n < (8::nat)"
  obtains "n = 0" | "n = 1" | "n = 2" | "n = 3" | "n = 4" | "n = 5" | "n = 6" | "n = 7"
  using assms by arith

lemma byte_bit_high: "8 \<le> n \<Longrightarrow> bit (w :: 8 word) n = False"
  using bit_imp_le_length [of w n] by auto

lemma first_byte: "or (push_bit 2 (take_bit 6 (drop_bit 2 a)))
              (drop_bit 4 (take_bit 6 (or (push_bit 4 (take_bit 2 a)) (drop_bit 4 b)))) = a"
  for a b :: "8 word"
proof (rule bit_word_eqI)
  fix n assume "n < LENGTH(8)"
  then have "n < 8" by simp
  then show "bit (or (push_bit 2 (take_bit 6 (drop_bit 2 a)))
              (drop_bit 4 (take_bit 6 (or (push_bit 4 (take_bit 2 a)) (drop_bit 4 b))))) n = bit a n"
    by (cases n rule: bit_index_cases)
       (simp_all add: bit_simps byte_bit_high numeral_2_eq_2 [symmetric] numeral_3_eq_3 [symmetric])
qed


lemma first_byte_padded: "or (push_bit 2 (take_bit 6 (drop_bit 2 a)))
              (drop_bit 4 (take_bit 6 (push_bit 4 (take_bit 2 a)))) = a"
  for a :: "8 word"
proof (rule bit_word_eqI)
  fix n assume "n < LENGTH(8)"
  then have "n < 8" by simp
  then show "bit (or (push_bit 2 (take_bit 6 (drop_bit 2 a)))
              (drop_bit 4 (take_bit 6 (push_bit 4 (take_bit 2 a))))) n = bit a n"
    by (cases n rule: bit_index_cases)
       (simp_all add: bit_simps byte_bit_high numeral_2_eq_2 [symmetric] numeral_3_eq_3 [symmetric])
qed

lemma second_byte: "or (push_bit 4 (take_bit 6 (or (push_bit 4 (take_bit 2 a)) (drop_bit 4 b))))
              (drop_bit 2 (take_bit 6 (or (push_bit 2 (take_bit 4 b)) (drop_bit 6 c)))) = b"
  for a b c :: "8 word"
proof (rule bit_word_eqI)
  fix n assume "n < LENGTH(8)"
  then have "n < 8" by simp
  then show "bit (or (push_bit 4 (take_bit 6 (or (push_bit 4 (take_bit 2 a)) (drop_bit 4 b))))
              (drop_bit 2 (take_bit 6 (or (push_bit 2 (take_bit 4 b)) (drop_bit 6 c))))) n = bit b n"
    by (cases n rule: bit_index_cases)
       (simp_all add: bit_simps byte_bit_high numeral_2_eq_2 [symmetric] numeral_3_eq_3 [symmetric])
qed

lemma second_byte_padded: "or (push_bit 4 (take_bit 6 (or (push_bit 4 (take_bit 2 a)) (drop_bit 4 b))))
              (drop_bit 2 (take_bit 6 (push_bit 2 (take_bit 4 b)))) = b"
  for a b :: "8 word"
proof (rule bit_word_eqI)
  fix n assume "n < LENGTH(8)"
  then have "n < 8" by simp
  then show "bit (or (push_bit 4 (take_bit 6 (or (push_bit 4 (take_bit 2 a)) (drop_bit 4 b))))
              (drop_bit 2 (take_bit 6 (push_bit 2 (take_bit 4 b))))) n = bit b n"
    by (cases n rule: bit_index_cases)
       (simp_all add: bit_simps byte_bit_high numeral_2_eq_2 [symmetric] numeral_3_eq_3 [symmetric])
qed

lemma third_byte: "or (push_bit 6 (take_bit 6 (or (push_bit 2 (take_bit 4 b)) (drop_bit 6 c))))
              (take_bit 6 (take_bit 6 c)) = c"
  for b c :: "8 word"
proof (rule bit_word_eqI)
  fix n assume "n < LENGTH(8)"
  then have "n < 8" by simp
  then show "bit (or (push_bit 6 (take_bit 6 (or (push_bit 2 (take_bit 4 b)) (drop_bit 6 c))))
              (take_bit 6 (take_bit 6 c))) n = bit c n"
    by (cases n rule: bit_index_cases)
       (simp_all add: bit_simps byte_bit_high numeral_2_eq_2 [symmetric] numeral_3_eq_3 [symmetric])
qed

lemma decode_group_encode:
  "decode_group (b64_char (drop_bit 2 a))
      (b64_char (or (push_bit 4 (take_bit 2 a)) (drop_bit 4 b)))
      (b64_char (or (push_bit 2 (take_bit 4 b)) (drop_bit 6 c)))
      (b64_char (take_bit 6 c)) = Some [a, b, c]"
  by (simp only: decode_group_def b64_index_char prod.case option.case first_byte second_byte third_byte)

lemma decode_last_no_pad:
  "c4 \<noteq> CHR ''='' \<Longrightarrow> decode_last c1 c2 c3 c4 = decode_group c1 c2 c3 c4"
  by (simp only: decode_last_def simp_thms if_False)

lemma b64decode_group:
  assumes "c4 \<noteq> CHR ''=''"
  shows "b64decode (c1 # c2 # c3 # c4 # rest) =
     (case decode_group c1 c2 c3 c4 of
        None \<Rightarrow> None
      | Some t \<Rightarrow> map_option ((@) t) (b64decode rest))"
proof (cases rest)
  case Nil
  have "b64decode [c1, c2, c3, c4] = decode_group c1 c2 c3 c4"
    by (simp only: b64decode.simps decode_last_no_pad [OF assms])
  moreover have "(case decode_group c1 c2 c3 c4 of
        None \<Rightarrow> None
      | Some t \<Rightarrow> map_option ((@) t) (b64decode [])) = decode_group c1 c2 c3 c4"
    by (cases "decode_group c1 c2 c3 c4") (simp_all only: option.case b64decode.simps option.map append_Nil2)
  ultimately show ?thesis
    by (simp only: Nil)
next
  case (Cons x xs)
  show ?thesis
    by (simp only: Cons b64decode.simps)
qed

lemma decode_last_one:
  "decode_last (b64_char (drop_bit 2 a)) (b64_char (push_bit 4 (take_bit 2 a)))
     (CHR ''='') (CHR ''='') = Some [a]"
  by (simp only: decode_last_def b64_index_char simp_thms if_True prod.case option.case first_byte_padded)

lemma decode_last_two:
  "decode_last (b64_char (drop_bit 2 a))
     (b64_char (or (push_bit 4 (take_bit 2 a)) (drop_bit 4 b)))
     (b64_char (push_bit 2 (take_bit 4 b))) (CHR ''='') = Some [a, b]"
  by (simp only: decode_last_def b64_index_char b64_char_not_pad simp_thms if_True if_False
        prod.case option.case first_byte second_byte_padded)

lemma b64decode_b64encode: "b64decode (b64encode bs) = Some bs"
proof (induction bs rule: b64encode.induct)
  case 1
  show ?case by simp
next
  case (2 a)
  show ?case
    by (simp only: b64encode.simps b64decode.simps decode_last_one)
next
  case (3 a b)
  show ?case
    by (simp only: b64encode.simps b64decode.simps decode_last_two)
next
  case (4 a b c rest)
  have "b64decode (b64encode (a # b # c # rest)) =
          (case decode_group (b64_char (drop_bit 2 a))
                  (b64_char (or (push_bit 4 (take_bit 2 a)) (drop_bit 4 b)))
                  (b64_char (or (push_bit 2 (take_bit 4 b)) (drop_bit 6 c)))
                  (b64_char (take_bit 6 c)) of
             None \<Rightarrow> None
           | Some t \<Rightarrow> map_option ((@) t) (b64decode (b64encode rest)))"
    by (simp only: b64encode.simps append_Cons append_Nil b64decode_group [OF b64_char_not_pad])
  also have "\<dots> = Some (a # b # c # rest)"
    by (simp only: decode_group_encode "4.IH" option.case option.map append_Cons append_Nil)
  finally show ?case .
qed

text \<open>
  Claim C8. Take raw bytes that the image library decodes to an image, which it writes as
  the PNG bytes \<open>png\<close>. Then the codec step (\<open>img_str\<close>: open, save as PNG,
  base64-encode) returns the base64 text of exactly those bytes, and decoding that text gives
  \<open>png\<close> back byte for byte: what the data URI carries is the image in the output
  format, unchanged by the text encoding.
\<close>

theorem codec_round_trip:
  assumes "Image_open pil raw = Inr img"
    and "save_PNG pil img = Inr png"
  shows "img_str pil raw = Inr (b64encode png)
         \<and> b64decode (b64encode png) = Some png"
  using assms by (simp add: img_str_def b64decode_b64encode)

lemma b64encode_red_pixel_png:
  "b64encode red_pixel_png =
     ''iVBORw0KGgoAAAANSUhEUgAAAAEAAAABCAIAAACQd1PeAAAADElEQVR4nGP4z8AAAAMBAQDJ/pLvAAAAAElFTkSuQmCC''"
  by code_simp

theorem codec_round_trip_witness:
  "img_str one_pixel_PIL red_pixel_source =
     Inr ''iVBORw0KGgoAAAANSUhEUgAAAAEAAAABCAIAAACQd1PeAAAADElEQVR4nGP4z8AAAAMBAQDJ/pLvAAAAAElFTkSuQmCC''
   \<and> b64decode ''iVBORw0KGgoAAAANSUhEUgAAAAEAAAABCAIAAACQd1PeAAAADElEQVR4nGP4z8AAAAMBAQDJ/pLvAAAAAElFTkSuQmCC''
       = Some red_pixel_png"
proof -
  have h1: "Image_open one_pixel_PIL red_pixel_source = Inr red_pixel"
    by (simp add: one_pixel_PIL_def)
  have h2: "save_PNG one_pixel_PIL red_pixel = Inr red_pixel_png"
    by (simp add: one_pixel_PIL_def)
  from codec_round_trip [OF h1 h2] show ?thesis
    by (simp only: b64encode_red_pixel_png)
qed

end
